theory Spec2Isabelle
  imports Main "HOL-Library.AList" "HOL-Library.Multiset"
    "HOL-Library.Char_ord" "HOL-Library.List_Lexorder"
begin

section \<open>Python values used by the manifest tools\<close>

text \<open>
  Python strings are \<^typ>\<open>string\<close>. A Python \<open>dict\<close> keeps its keys in insertion
  order and the tools iterate over it, so a dict is an association list with distinct
  keys: \<open>d[k] = v\<close> is \<^const>\<open>AList.update\<close> (the value is replaced in place when the
  key is present, the pair is appended otherwise) and \<open>k in d\<close>, \<open>d[k]\<close>, \<open>d.get(k)\<close>
  are \<^const>\<open>map_of\<close>.
\<close>

type_synonym 'v dict = "(string \<times> 'v) list"

text \<open>\<open>sep.join(xs)\<close>\<close>

fun join :: "string \<Rightarrow> string list \<Rightarrow> string" where
  "join sep [] = []"
| "join sep [x] = x"
| "join sep (x # y # ys) = x @ sep @ join sep (y # ys)"

text \<open>A value between single quotes, as in the f-string \<open>'{x}'\<close>.\<close>

definition squote :: "string \<Rightarrow> string" where
  "squote x = [CHR 0x27] @ x @ [CHR 0x27]"

section \<open>manifest\_validator.py\<close>

subsection \<open>Data\<close>

text \<open>The dataclass \<open>ValidationIssue\<close>; every field is a \<open>str\<close>.\<close>

record ValidationIssue =
  severity :: string
  category :: string
  message :: string
  source_module :: string
  target :: string

text \<open>
  The manifest dictionaries handed to the validator, restricted to the keys the validator
  reads. A key that may be missing is an \<open>option\<close>. The \<open>publishes\<close> and
  \<open>subscribes\<close> entries are only iterated over, so each is the list of names the
  iteration yields (the keys of a dict, or the elements of a list, repeats included).

  An API entry is a dict of strings. The \<open>apis\<close> entry is either a dict with optional
  \<open>static\<close> and \<open>dynamic\<close> groups (each a list of API entries, or something that is
  not a list), or a plain list of API entries, which is what
  \<open>ManifestProcessor._module_to_dict\<close> puts there.
\<close>

type_synonym api = "string dict"

record pubsub =
  publishes :: "string list option"
  subscribes :: "string list option"

datatype api_group = ApiGroupList "api list" | ApiGroupOther

datatype apis_entry =
  ApisDict "api_group option" "api_group option"
| ApisList "api list"

record manifest =
  m_name :: string
  m_dependencies :: "string list option"
  m_event_bus :: "pubsub option"
  m_shared_state :: "pubsub option"
  m_apis :: "apis_entry option"

text \<open>The state of a \<open>ManifestValidator\<close> object.\<close>

record ManifestValidator =
  issues :: "ValidationIssue list"
  event_publishers :: "string list dict"
  event_subscribers :: "string list dict"
  state_publishers :: "string list dict"
  state_subscribers :: "string list dict"
  api_providers :: "string dict"
  api_consumers :: "string set"

text \<open>\<open>ManifestValidator.__init__\<close>\<close>

definition init_validator :: ManifestValidator where
  "init_validator =
     \<lparr>issues = [], event_publishers = [], event_subscribers = [],
      state_publishers = [], state_subscribers = [], api_providers = [],
      api_consumers = {}\<rparr>"

subsection \<open>collect\_manifest\_data\<close>

text \<open>
  \<open>if k not in d: d[k] = []\<close> followed by \<open>d[k].append(module_name)\<close>.
\<close>

definition append_to :: "string \<Rightarrow> string \<Rightarrow> string list dict \<Rightarrow> string list dict" where
  "append_to k module_name d =
     AList.update k ((case map_of d k of None \<Rightarrow> [] | Some l \<Rightarrow> l) @ [module_name]) d"

text \<open>One of the four \<open>for name in manifest[...][...]\<close> loops.\<close>

definition collect_names :: "string \<Rightarrow> string list \<Rightarrow> string list dict \<Rightarrow> string list dict" where
  "collect_names module_name names d = foldl (\<lambda>d k. append_to k module_name d) d names"

definition collect_section ::
  "string \<Rightarrow> pubsub option \<Rightarrow> (pubsub \<Rightarrow> string list option) \<Rightarrow> string list dict \<Rightarrow> string list dict" where
  "collect_section module_name sec part d =
     (case sec of
        None \<Rightarrow> d
      | Some s \<Rightarrow> (case part s of None \<Rightarrow> d | Some names \<Rightarrow> collect_names module_name names d))"

text \<open>
  \<open>method = api.get('method', '')\<close>; \<open>if method: self.api_providers[method] = module_name\<close>
\<close>

definition collect_api :: "string \<Rightarrow> string dict \<Rightarrow> api \<Rightarrow> string dict" where
  "collect_api module_name d a =
     (let method = (case map_of a ''method'' of None \<Rightarrow> [] | Some x \<Rightarrow> x)
      in if method \<noteq> [] then AList.update method module_name d else d)"

definition collect_api_group :: "string \<Rightarrow> api_group option \<Rightarrow> string dict \<Rightarrow> string dict" where
  "collect_api_group module_name g d =
     (case g of
        Some (ApiGroupList as) \<Rightarrow> foldl (collect_api module_name) d as
      | _ \<Rightarrow> d)"

text \<open>
  \<open>for api_type in ['static', 'dynamic']\<close>. When \<open>manifest['apis']\<close> is a list of
  dicts, \<open>api_type in manifest['apis']\<close> compares a string with dicts and is false.
\<close>

definition collect_apis :: "string \<Rightarrow> apis_entry option \<Rightarrow> string dict \<Rightarrow> string dict" where
  "collect_apis module_name a d =
     (case a of
        Some (ApisDict static dynamic) \<Rightarrow>
          collect_api_group module_name dynamic (collect_api_group module_name static d)
      | _ \<Rightarrow> d)"

definition collect_manifest_data :: "ManifestValidator \<Rightarrow> string \<Rightarrow> manifest \<Rightarrow> ManifestValidator" where
  "collect_manifest_data v module_name mf =
     v\<lparr>event_publishers := collect_section module_name (m_event_bus mf) publishes (event_publishers v),
       event_subscribers := collect_section module_name (m_event_bus mf) subscribes (event_subscribers v),
       state_publishers := collect_section module_name (m_shared_state mf) publishes (state_publishers v),
       state_subscribers := collect_section module_name (m_shared_state mf) subscribes (state_subscribers v),
       api_providers := collect_apis module_name (m_apis mf) (api_providers v)\<rparr>"

subsection \<open>validate\_events, validate\_shared\_state, validate\_dependencies\<close>

text \<open>\<open>k not in d or not d[k]\<close>\<close>

definition absent_or_empty :: "string list dict \<Rightarrow> string \<Rightarrow> bool" where
  "absent_or_empty d k = (case map_of d k of None \<Rightarrow> True | Some l \<Rightarrow> l = [])"

definition orphan_event_issue :: "string \<times> string list \<Rightarrow> ValidationIssue" where
  "orphan_event_issue = (\<lambda>(event, publishers).
     \<lparr>severity = ''WARNING'', category = ''EVENT'',
      message = ''Event '' @ squote event @ '' is published but has no subscribers'',
      source_module = join '', '' publishers, target = event\<rparr>)"

definition missing_event_issue :: "string \<times> string list \<Rightarrow> ValidationIssue" where
  "missing_event_issue = (\<lambda>(event, subscribers).
     \<lparr>severity = ''ERROR'', category = ''EVENT'',
      message = ''Event '' @ squote event @ '' has subscribers but no publisher'',
      source_module = join '', '' subscribers, target = event\<rparr>)"

definition multi_event_issue :: "string \<times> string list \<Rightarrow> ValidationIssue" where
  "multi_event_issue = (\<lambda>(event, publishers).
     \<lparr>severity = ''INFO'', category = ''EVENT'',
      message = ''Event '' @ squote event @ '' is published by multiple modules'',
      source_module = join '', '' publishers, target = event\<rparr>)"

definition event_issues :: "ManifestValidator \<Rightarrow> ValidationIssue list" where
  "event_issues v =
     map orphan_event_issue
       (filter (\<lambda>(event, publishers). absent_or_empty (event_subscribers v) event) (event_publishers v))
   @ map missing_event_issue
       (filter (\<lambda>(event, subscribers). absent_or_empty (event_publishers v) event) (event_subscribers v))
   @ map multi_event_issue
       (filter (\<lambda>(event, publishers). length publishers > 1) (event_publishers v))"

definition validate_events :: "ManifestValidator \<Rightarrow> ManifestValidator" where
  "validate_events v = v\<lparr>issues := issues v @ event_issues v\<rparr>"

definition orphan_state_issue :: "string \<times> string list \<Rightarrow> ValidationIssue" where
  "orphan_state_issue = (\<lambda>(state, publishers).
     \<lparr>severity = ''WARNING'', category = ''STATE'',
      message = ''State '' @ squote state @ '' is written but never read'',
      source_module = join '', '' publishers, target = state\<rparr>)"

definition missing_state_issue :: "string \<times> string list \<Rightarrow> ValidationIssue" where
  "missing_state_issue = (\<lambda>(state, subscribers).
     \<lparr>severity = ''ERROR'', category = ''STATE'',
      message = ''State '' @ squote state @ '' is read but never written'',
      source_module = join '', '' subscribers, target = state\<rparr>)"

definition multi_state_issue :: "string \<times> string list \<Rightarrow> ValidationIssue" where
  "multi_state_issue = (\<lambda>(state, publishers).
     \<lparr>severity = ''WARNING'', category = ''STATE'',
      message = ''State '' @ squote state @ '' is written by multiple modules - potential conflict'',
      source_module = join '', '' publishers, target = state\<rparr>)"

definition state_issues :: "ManifestValidator \<Rightarrow> ValidationIssue list" where
  "state_issues v =
     map orphan_state_issue
       (filter (\<lambda>(state, publishers). absent_or_empty (state_subscribers v) state) (state_publishers v))
   @ map missing_state_issue
       (filter (\<lambda>(state, subscribers). absent_or_empty (state_publishers v) state) (state_subscribers v))
   @ map multi_state_issue
       (filter (\<lambda>(state, publishers). length publishers > 1) (state_publishers v))"

definition validate_shared_state :: "ManifestValidator \<Rightarrow> ManifestValidator" where
  "validate_shared_state v = v\<lparr>issues := issues v @ state_issues v\<rparr>"

text \<open>The system dependencies that \<open>validate_dependencies\<close> skips.\<close>

definition system_dependencies :: "string list" where
  "system_dependencies = [''ESPhal'', ''SharedState'', ''EventBus'', ''ConfigManager'']"

definition dependency_issue :: "string \<Rightarrow> string \<Rightarrow> ValidationIssue" where
  "dependency_issue module_name dep =
     \<lparr>severity = ''ERROR'', category = ''DEPENDENCY'',
      message = ''Module depends on non-existent module '' @ squote dep,
      source_module = module_name, target = dep\<rparr>"

text \<open>\<open>module['module'].get('dependencies', [])\<close>\<close>

definition dependencies_of :: "manifest \<Rightarrow> string list" where
  "dependencies_of mf = (case m_dependencies mf of None \<Rightarrow> [] | Some ds \<Rightarrow> ds)"

definition module_dependency_issues :: "string set \<Rightarrow> manifest \<Rightarrow> ValidationIssue list" where
  "module_dependency_issues module_names mf =
     map (dependency_issue (m_name mf))
       (filter (\<lambda>dep. dep \<notin> set system_dependencies \<and> dep \<notin> module_names) (dependencies_of mf))"

definition dependency_issues :: "manifest list \<Rightarrow> ValidationIssue list" where
  "dependency_issues modules =
     concat (map (module_dependency_issues (set (map m_name modules))) modules)"

definition validate_dependencies :: "ManifestValidator \<Rightarrow> manifest list \<Rightarrow> ManifestValidator" where
  "validate_dependencies v modules = v\<lparr>issues := issues v @ dependency_issues modules\<rparr>"

subsection \<open>validate\_all\<close>

text \<open>\<open>severity_order.get(x.severity, 999)\<close>\<close>

definition severity_rank :: "ValidationIssue \<Rightarrow> nat" where
  "severity_rank x =
     (if severity x = ''ERROR'' then 0
      else if severity x = ''WARNING'' then 1
      else if severity x = ''INFO'' then 2
      else 999)"

definition collect_all :: "ManifestValidator \<Rightarrow> manifest list \<Rightarrow> ManifestValidator" where
  "collect_all v modules = foldl (\<lambda>v mf. collect_manifest_data v (m_name mf) mf) v modules"

text \<open>The issue list after the three validations and before the sort.\<close>

definition discovered :: "ManifestValidator \<Rightarrow> manifest list \<Rightarrow> ManifestValidator" where
  "discovered v modules =
     validate_dependencies
       (validate_shared_state (validate_events (collect_all (v\<lparr>issues := []\<rparr>) modules)))
       modules"

text \<open>
  \<open>list.sort\<close> is stable; it is \<^const>\<open>sort_key\<close>. The function returns the pair
  \<open>(not has_errors, self.issues)\<close> and leaves the validator updated.
\<close>

definition validate_all :: "ManifestValidator \<Rightarrow> manifest list \<Rightarrow> (bool \<times> ValidationIssue list) \<times> ManifestValidator" where
  "validate_all v modules =
     (let v' = discovered v modules;
          v'' = v'\<lparr>issues := sort_key severity_rank (issues v')\<rparr>;
          has_errors = list_ex (\<lambda>issue. severity issue = ''ERROR'') (issues v'')
      in ((\<not> has_errors, issues v''), v''))"

section \<open>process\_manifests.py\<close>

subsection \<open>Data\<close>

text \<open>
  The exceptions that can reach \<open>parse_manifests\<close> and \<open>process_all\<close>: reading a file
  and decoding its JSON, \<open>jsonschema.validate\<close>, and attribute lookup (with the class
  and the attribute name).
\<close>

datatype error =
  OSError
| JSONDecodeError
| ValidationError
| SchemaError
| AttributeError string string

text \<open>
  The \<open>ui\<close> section of a manifest is passed through; only \<open>ui['static']['pages']\<close>
  is looked at. Pages and the rest of the section are opaque text.
\<close>

record ui_static =
  pages :: "string list option"

record ui_data =
  static :: "ui_static option"
  ui_other :: string

text \<open>The dataclass \<open>ModuleInfo\<close>. It has exactly these fourteen fields.\<close>

record ModuleInfo =
  name :: string
  type :: string
  version :: string
  description :: string
  priority :: string
  dependencies :: "string list"
  apis :: "api list"
  ui_pages :: "string list"
  shared_state_keys :: "string list"
  events :: "string list"
  config_file :: "string option"
  manifest_path :: string
  ui :: ui_data
  driver_interface :: "string option"

text \<open>
  A decoded \<open>module_manifest.json\<close>, restricted to what \<open>parse_module_manifest\<close>
  reads: the \<open>module\<close> section, \<open>apis['static']\<close>, \<open>ui\<close>, the keys of
  \<open>shared_state['publishes']\<close> and of \<open>event_bus['publishes']\<close> (dict keys, in file
  order), and \<open>configuration['config_file']\<close>. The outer \<open>option\<close> is the presence
  of the section, the inner one the presence of the entry inside it. The model covers
  manifests whose sections have these shapes.
\<close>

record module_section =
  ms_name :: "string option"
  ms_type :: "string option"
  ms_version :: "string option"
  ms_description :: "string option"
  ms_priority :: "string option"
  ms_dependencies :: "string list option"
  ms_driver_interface :: "string option"

record module_manifest =
  mm_module :: "module_section option"
  mm_apis_static :: "api list option option"
  mm_ui :: "ui_data option"
  mm_shared_state_publishes :: "string list option option"
  mm_event_bus_publishes :: "string list option option"
  mm_configuration :: "string option option"

text \<open>A decoded driver manifest and the dict \<open>parse_driver_manifest\<close> returns.\<close>

record driver_manifest =
  dm_driver :: "string dict option"
  dm_apis_specific :: "api list option option"

record driver_info =
  di_driver :: "string dict"
  di_manifest_path :: string
  di_apis :: "api list"

text \<open>
  A loaded JSON schema is represented by what \<open>jsonschema.validate\<close> does with it:
  \<open>None\<close> when the document conforms, otherwise the exception raised. The schema
  attribute of the processor is \<open>None\<close> when the schema dict is empty (the file was
  not found), which is the case \<open>if self.module_schema:\<close> skips.
\<close>

type_synonym 'a schema = "'a \<Rightarrow> error option"

record ManifestProcessor =
  module_schema :: "module_manifest schema option"
  driver_schema :: "driver_manifest schema option"
  modules :: "ModuleInfo list"
  drivers :: "driver_info list"
  all_apis :: "api list"
  all_ui_schemas :: "ui_data dict"
  all_events :: "string list dict"

text \<open>\<open>ManifestProcessor.__init__\<close>, given the two schemas it loads.\<close>

definition init_processor ::
  "module_manifest schema option \<Rightarrow> driver_manifest schema option \<Rightarrow> ManifestProcessor" where
  "init_processor ms ds =
     \<lparr>module_schema = ms, driver_schema = ds, modules = [], drivers = [],
      all_apis = [], all_ui_schemas = [], all_events = []\<rparr>"

text \<open>
  What the run reads from outside: the paths \<open>discover_manifests\<close> finds (in the order
  \<open>rglob\<close> enumerates them), the result of opening and decoding each file, the text
  \<open>datetime.now().strftime('%Y-%m-%d %H:%M:%S')\<close> yields at its \<open>n\<close>-th call during
  code generation, and the emitters that no property below looks into (module info table,
  contract documentation, adaptive UI), as the files they write.
\<close>

record environment =
  module_manifest_files :: "string list"
  driver_manifest_files :: "string list"
  load_module_manifest :: "string \<Rightarrow> error + module_manifest"
  load_driver_manifest :: "string \<Rightarrow> error + driver_manifest"
  clock :: "nat \<Rightarrow> string"
  other_emitters :: "ManifestProcessor \<Rightarrow> (string \<times> string) list"

subsection \<open>parse\_module\_manifest, parse\_driver\_manifest, parse\_manifests\<close>

text \<open>\<open>d.get(k, default)\<close> on an entry that may be missing.\<close>

definition get_default :: "'a option \<Rightarrow> 'a \<Rightarrow> 'a" where
  "get_default x d = (case x of None \<Rightarrow> d | Some v \<Rightarrow> v)"

text \<open>\<open>manifest.get('module', {})\<close>\<close>

definition empty_module_section :: module_section where
  "empty_module_section =
     \<lparr>ms_name = None, ms_type = None, ms_version = None, ms_description = None,
      ms_priority = None, ms_dependencies = None, ms_driver_interface = None\<rparr>"

definition new_module :: "module_section \<Rightarrow> string \<Rightarrow> ModuleInfo" where
  "new_module module_data path =
     \<lparr>name = get_default (ms_name module_data) [],
      type = get_default (ms_type module_data) ''STANDARD'',
      version = get_default (ms_version module_data) ''0.0.0'',
      description = get_default (ms_description module_data) [],
      priority = get_default (ms_priority module_data) ''NORMAL'',
      dependencies = get_default (ms_dependencies module_data) [],
      apis = [], ui_pages = [], shared_state_keys = [], events = [],
      config_file = None, manifest_path = path,
      ui = \<lparr>static = None, ui_other = []\<rparr>,
      driver_interface = ms_driver_interface module_data\<rparr>"

text \<open>The extraction steps, each on the pair of the module being built and the processor.\<close>

definition extract_apis :: "module_manifest \<Rightarrow> ModuleInfo \<times> ManifestProcessor \<Rightarrow> ModuleInfo \<times> ManifestProcessor" where
  "extract_apis mf = (\<lambda>(module, p).
     (case mm_apis_static mf of
        None \<Rightarrow> (module, p)
      | Some static_apis \<Rightarrow>
          (let tagged = map (AList.update ''module'' (name module)) (get_default static_apis [])
           in (module\<lparr>apis := apis module @ tagged\<rparr>, p\<lparr>all_apis := all_apis p @ tagged\<rparr>))))"

definition extract_ui :: "module_manifest \<Rightarrow> ModuleInfo \<times> ManifestProcessor \<Rightarrow> ModuleInfo \<times> ManifestProcessor" where
  "extract_ui mf = (\<lambda>(module, p).
     (case mm_ui mf of
        None \<Rightarrow> (module, p)
      | Some ui_d \<Rightarrow>
          (case static ui_d of
             Some st \<Rightarrow>
               (case pages st of
                  Some pgs \<Rightarrow>
                    (module\<lparr>ui := ui_d, ui_pages := pgs\<rparr>,
                     p\<lparr>all_ui_schemas := AList.update (name module) ui_d (all_ui_schemas p)\<rparr>)
                | None \<Rightarrow> (module\<lparr>ui := ui_d\<rparr>, p))
           | None \<Rightarrow> (module\<lparr>ui := ui_d\<rparr>, p))))"

definition extract_shared_state :: "module_manifest \<Rightarrow> ModuleInfo \<times> ManifestProcessor \<Rightarrow> ModuleInfo \<times> ManifestProcessor" where
  "extract_shared_state mf = (\<lambda>(module, p).
     (case mm_shared_state_publishes mf of
        None \<Rightarrow> (module, p)
      | Some pub \<Rightarrow>
          (module\<lparr>shared_state_keys := shared_state_keys module @ get_default pub []\<rparr>, p)))"

definition extract_events :: "module_manifest \<Rightarrow> ModuleInfo \<times> ManifestProcessor \<Rightarrow> ModuleInfo \<times> ManifestProcessor" where
  "extract_events mf = (\<lambda>(module, p).
     (case mm_event_bus_publishes mf of
        None \<Rightarrow> (module, p)
      | Some pub \<Rightarrow>
          (module\<lparr>events := events module @ get_default pub []\<rparr>,
           p\<lparr>all_events := collect_names (name module) (get_default pub []) (all_events p)\<rparr>)))"

definition extract_configuration :: "module_manifest \<Rightarrow> ModuleInfo \<times> ManifestProcessor \<Rightarrow> ModuleInfo \<times> ManifestProcessor" where
  "extract_configuration mf = (\<lambda>(module, p).
     (case mm_configuration mf of
        None \<Rightarrow> (module, p)
      | Some cf \<Rightarrow> (module\<lparr>config_file := cf\<rparr>, p)))"

text \<open>
  \<open>parse_module_manifest\<close> returns the module, \<open>None\<close> after a schema violation, or
  raises; the second component is the processor afterwards.
\<close>

definition parse_module_manifest ::
  "environment \<Rightarrow> ManifestProcessor \<Rightarrow> string \<Rightarrow> (error + ModuleInfo option) \<times> ManifestProcessor" where
  "parse_module_manifest env p path =
     (case load_module_manifest env path of
        Inl e \<Rightarrow> (Inl e, p)
      | Inr mf \<Rightarrow>
          (case (case module_schema p of None \<Rightarrow> None | Some validate \<Rightarrow> validate mf) of
             Some ValidationError \<Rightarrow> (Inr None, p)
           | Some e \<Rightarrow> (Inl e, p)
           | None \<Rightarrow>
               (let module = new_module (get_default (mm_module mf) empty_module_section) path;
                    (module', p') =
                       extract_configuration mf (extract_events mf (extract_shared_state mf
                         (extract_ui mf (extract_apis mf (module, p)))))
                in (Inr (Some module'), p'))))"

definition parse_driver_manifest ::
  "environment \<Rightarrow> ManifestProcessor \<Rightarrow> string \<Rightarrow> (error + driver_info option) \<times> ManifestProcessor" where
  "parse_driver_manifest env p path =
     (case load_driver_manifest env path of
        Inl e \<Rightarrow> (Inl e, p)
      | Inr mf \<Rightarrow>
          (case (case driver_schema p of None \<Rightarrow> None | Some validate \<Rightarrow> validate mf) of
             Some ValidationError \<Rightarrow> (Inr None, p)
           | Some e \<Rightarrow> (Inl e, p)
           | None \<Rightarrow>
               (Inr (Some \<lparr>di_driver = get_default (dm_driver mf) [],
                           di_manifest_path = path,
                           di_apis = get_default (get_default (dm_apis_specific mf) None) []\<rparr>), p)))"

text \<open>
  One iteration of each loop of \<open>parse_manifests\<close>: \<open>except Exception\<close> logs the error
  and goes on with the processor as the failed call left it.
\<close>

definition parse_module_step :: "environment \<Rightarrow> ManifestProcessor \<Rightarrow> string \<Rightarrow> ManifestProcessor" where
  "parse_module_step env p path =
     (case parse_module_manifest env p path of
        (Inr (Some module), p') \<Rightarrow> p'\<lparr>modules := modules p' @ [module]\<rparr>
      | (_, p') \<Rightarrow> p')"

definition parse_driver_step :: "environment \<Rightarrow> ManifestProcessor \<Rightarrow> string \<Rightarrow> ManifestProcessor" where
  "parse_driver_step env p path =
     (case parse_driver_manifest env p path of
        (Inr (Some driver), p') \<Rightarrow> p'\<lparr>drivers := drivers p' @ [driver]\<rparr>
      | (_, p') \<Rightarrow> p')"

definition parse_manifests :: "environment \<Rightarrow> ManifestProcessor \<Rightarrow> ManifestProcessor" where
  "parse_manifests env p =
     foldl (parse_driver_step env)
       (foldl (parse_module_step env) p (module_manifest_files env))
       (driver_manifest_files env)"

subsection \<open>validate\_manifest\_consistency\<close>

text \<open>
  \<open>_module_to_dict\<close> builds a dict with the keys \<open>module\<close>, \<open>ui\<close> and \<open>apis\<close>. The
  \<open>module\<close> entry has no \<open>dependencies\<close> key, \<open>apis\<close> is the module's list of API
  dicts, and there is no \<open>event_bus\<close> and no \<open>shared_state\<close> key.
\<close>

definition module_to_dict :: "ModuleInfo \<Rightarrow> manifest" where
  "module_to_dict module =
     \<lparr>m_name = name module, m_dependencies = None, m_event_bus = None,
      m_shared_state = None, m_apis = Some (ApisList (apis module))\<rparr>"

text \<open>
  The keys of the dict filled by
  \<open>for event in module.events: if event in self.all_events: publishes[event] = self.all_events[event]\<close>.
\<close>

definition event_bus_publishes :: "ManifestProcessor \<Rightarrow> ModuleInfo \<Rightarrow> string list" where
  "event_bus_publishes p module =
     map fst
       (foldl (\<lambda>d event. case map_of (all_events p) event of
                             None \<Rightarrow> d
                           | Some ms \<Rightarrow> AList.update event ms d)
          [] (events module))"

text \<open>
  The attribute read \<open>module.shared_state\<close>. \<open>ModuleInfo\<close> declares
  \<open>shared_state_keys\<close> but no \<open>shared_state\<close>, and nothing assigns one, so the read
  raises \<open>AttributeError\<close> for every module.
\<close>

definition module_shared_state :: "ModuleInfo \<Rightarrow> error + pubsub" where
  "module_shared_state module = Inl (AttributeError ''ModuleInfo'' ''shared_state'')"

text \<open>The body of the loop over \<open>self.modules\<close>, and the loop.\<close>

definition consistency_manifest :: "ManifestProcessor \<Rightarrow> ModuleInfo \<Rightarrow> error + manifest" where
  "consistency_manifest p module =
     (let mf = (module_to_dict module)
                 \<lparr>m_event_bus := Some \<lparr>publishes = Some (event_bus_publishes p module),
                                       subscribes = Some []\<rparr>\<rparr>
      in case module_shared_state module of
           Inl e \<Rightarrow> Inl e
         | Inr s \<Rightarrow> Inr (mf\<lparr>m_shared_state := Some s\<rparr>))"

fun all_manifests :: "ManifestProcessor \<Rightarrow> ModuleInfo list \<Rightarrow> error + manifest list" where
  "all_manifests p [] = Inr []"
| "all_manifests p (module # rest) =
     (case consistency_manifest p module of
        Inl e \<Rightarrow> Inl e
      | Inr mf \<Rightarrow> (case all_manifests p rest of Inl e \<Rightarrow> Inl e | Inr mfs \<Rightarrow> Inr (mf # mfs)))"

text \<open>
  The verdict \<open>is_valid\<close> of a fresh validator on the manifests so built, or the
  exception. The report file and the log lines are not part of the model.
\<close>

definition validate_manifest_consistency :: "ManifestProcessor \<Rightarrow> error + bool" where
  "validate_manifest_consistency p =
     (case all_manifests p (modules p) of
        Inl e \<Rightarrow> Inl e
      | Inr mfs \<Rightarrow> Inr (fst (fst (validate_all init_validator mfs))))"

subsection \<open>resolve\_dependencies\<close>

text \<open>The function only logs a warning for each pair it returns here.\<close>

definition resolve_dependencies :: "ManifestProcessor \<Rightarrow> (string \<times> string) list" where
  "resolve_dependencies p =
     concat (map (\<lambda>module.
       map (\<lambda>dep. (name module, dep))
         (filter (\<lambda>dep. dep \<notin> set (map name (modules p))
                      \<and> dep \<notin> set [''ESPhal'', ''SharedState'', ''EventBus''])
            (dependencies module)))
       (modules p))"

subsection \<open>Emitters\<close>

text \<open>\<open>str.upper\<close> on ASCII text, and a value between double quotes.\<close>

definition upper_char :: "char \<Rightarrow> char" where
  "upper_char c =
     (if CHR ''a'' \<le> c \<and> c \<le> CHR ''z'' then char_of (of_char c - (32::nat)) else c)"

definition upper :: "string \<Rightarrow> string" where
  "upper s = map upper_char s"

definition dquote :: "string \<Rightarrow> string" where
  "dquote x = [CHR 0x22] @ x @ [CHR 0x22]"

definition newline :: string where
  "newline = [CHR 0x0A]"

text \<open>\<open>key.upper().replace('.', '_')\<close>\<close>

definition const_name :: "string \<Rightarrow> string" where
  "const_name key = map (\<lambda>c. if c = CHR ''.'' then CHR ''_'' else c) (upper key)"

definition const_line :: "string \<Rightarrow> string" where
  "const_line key = ''    constexpr const char* '' @ const_name key @ '' = '' @ dquote key @ '';''"

text \<open>\<open>generate_api_registry\<close>: the lines of \<open>code\<close>, and the text written.\<close>

definition api_registry_line :: "api \<Rightarrow> string" where
  "api_registry_line a =
     ''    rpc.register_method('' @ dquote (get_default (map_of a ''method'') [])
       @ '', &'' @ get_default (map_of a ''handler'') []
       @ '', AccessLevel::'' @ upper (get_default (map_of a ''access_level'') ''user'') @ '');''"

definition api_registry_module :: "ModuleInfo \<Rightarrow> string list" where
  "api_registry_module module =
     (if apis module \<noteq> []
      then [''    // APIs from '' @ name module] @ map api_registry_line (apis module) @ [[]]
      else [])"

definition api_registry_code :: "string \<Rightarrow> ManifestProcessor \<Rightarrow> string list" where
  "api_registry_code now p =
     [''// AUTO-GENERATED FILE - DO NOT EDIT'',
      ''// Generated by process_manifests.py on '' @ now,
      [],
      ''#include '' @ dquote ''generated_api_registry.h'',
      ''#include '' @ dquote ''json_rpc_interface.h'',
      [],
      ''namespace ModESP {'',
      [],
      ''void register_generated_apis(JsonRpcInterface& rpc) {'']
     @ concat (map api_registry_module (modules p))
     @ [''}'', [], ''} // namespace ModESP'']"

definition generate_api_registry :: "string \<Rightarrow> ManifestProcessor \<Rightarrow> string" where
  "generate_api_registry now p = join newline (api_registry_code now p)"

text \<open>
  \<open>generate_event_registry\<close>. The state keys are gathered from
  \<open>_module_to_dict(module)\<close>, under \<open>'shared_state' in manifest and 'publishes' in
  manifest['shared_state']\<close>. The dict \<open>events_by_module\<close> the function also fills is
  never read and is left out.
\<close>

definition all_states :: "ManifestProcessor \<Rightarrow> unit dict" where
  "all_states p =
     foldl (\<lambda>d module.
              case m_shared_state (module_to_dict module) of
                None \<Rightarrow> d
              | Some s \<Rightarrow> (case publishes s of
                             None \<Rightarrow> d
                           | Some keys \<Rightarrow> foldl (\<lambda>d k. AList.update k () d) d keys))
       [] (modules p)"

definition event_registry_code :: "string \<Rightarrow> ManifestProcessor \<Rightarrow> string list" where
  "event_registry_code now p =
     [''// AUTO-GENERATED FILE - DO NOT EDIT'',
      ''// Generated by process_manifests.py on '' @ now,
      ''// For detailed documentation see: components/system_contract/'',
      [],
      ''#pragma once'',
      [],
      ''namespace ModESP {'',
      [],
      ''namespace Events {'',
      ''    // Event name constants for compile-time checking'']
     @ map const_line (sort (map fst (all_events p)))
     @ [''} // namespace Events'',
        [],
        ''namespace States {'',
        ''    // SharedState key constants'']
     @ map const_line (sort (map fst (all_states p)))
     @ [''} // namespace States'',
        [],
        ''} // namespace ModESP'']"

definition generate_event_registry :: "string \<Rightarrow> ManifestProcessor \<Rightarrow> string" where
  "generate_event_registry now p = join newline (event_registry_code now p)"

text \<open>
  \<open>generate_code\<close>, as the files written (name and content). The API registry reads the
  clock first, the module info table second, the event registry third.
\<close>

definition generate_code :: "environment \<Rightarrow> ManifestProcessor \<Rightarrow> (string \<times> string) list" where
  "generate_code env p =
     [(''generated_api_registry.cpp'', generate_api_registry (clock env 0) p),
      (''generated_system_contract.h'', generate_event_registry (clock env 2) p)]
     @ other_emitters env p"

subsection \<open>process\_all\<close>

text \<open>
  How a run ends: normally, by \<open>sys.exit(code)\<close>, or by an exception nobody catches. A
  run is described by its end, the processor it leaves and the generated files it wrote.
\<close>

datatype outcome = Completed | SysExit nat | Raised error

record run =
  outcome :: outcome
  final :: ManifestProcessor
  written :: "(string \<times> string) list"

definition process_all :: "environment \<Rightarrow> ManifestProcessor \<Rightarrow> run" where
  "process_all env p =
     (let p' = parse_manifests env p
      in case validate_manifest_consistency p' of
           Inl e \<Rightarrow> \<lparr>outcome = Raised e, final = p', written = []\<rparr>
         | Inr False \<Rightarrow> \<lparr>outcome = SysExit 1, final = p', written = []\<rparr>
         | Inr True \<Rightarrow> \<lparr>outcome = Completed, final = p', written = generate_code env p'\<rparr>)"

section \<open>Notions used to state the properties\<close>

text \<open>
  \<open>d.get(k, [])\<close> on a table of module lists.
\<close>

definition entries :: "'v list dict \<Rightarrow> string \<Rightarrow> 'v list" where
  "entries d k = (case map_of d k of None \<Rightarrow> [] | Some l \<Rightarrow> l)"

text \<open>
  The names one \<open>publishes\<close> or \<open>subscribes\<close> loop of \<open>collect_manifest_data\<close>
  iterates over: none when the section or the entry is missing.
\<close>

definition names_of :: "pubsub option \<Rightarrow> (pubsub \<Rightarrow> string list option) \<Rightarrow> string list" where
  "names_of sec part = (case sec of None \<Rightarrow> [] | Some s \<Rightarrow> (case part s of None \<Rightarrow> [] | Some ns \<Rightarrow> ns))"

text \<open>
  The events a manifest publishes and subscribes to, the state keys it writes and reads.
\<close>

definition published_events :: "manifest \<Rightarrow> string list" where
  "published_events mf = names_of (m_event_bus mf) publishes"

definition subscribed_events :: "manifest \<Rightarrow> string list" where
  "subscribed_events mf = names_of (m_event_bus mf) subscribes"

definition written_states :: "manifest \<Rightarrow> string list" where
  "written_states mf = names_of (m_shared_state mf) publishes"

definition read_states :: "manifest \<Rightarrow> string list" where
  "read_states mf = names_of (m_shared_state mf) subscribes"

text \<open>
  The module names appended under the key \<open>k\<close> while the manifests \<open>ms\<close> are
  collected in this order: each module once for every occurrence of \<open>k\<close> among its
  names.
\<close>

definition contributions :: "(manifest \<Rightarrow> string list) \<Rightarrow> manifest list \<Rightarrow> string \<Rightarrow> string list" where
  "contributions f ms k = concat (map (\<lambda>mf. map (\<lambda>_. m_name mf) (filter (\<lambda>x. x = k) (f mf))) ms)"

text \<open>
  One table after all manifests have been collected.
\<close>

definition collect_table :: "(manifest \<Rightarrow> string list) \<Rightarrow> string list dict \<Rightarrow> manifest list \<Rightarrow> string list dict" where
  "collect_table f d ms = foldl (\<lambda>d mf. collect_names (m_name mf) (f mf) d) d ms"

text \<open>
  An issue with a given severity, category and target.
\<close>

definition is_issue :: "string \<Rightarrow> string \<Rightarrow> string \<Rightarrow> ValidationIssue \<Rightarrow> bool" where
  "is_issue sev cat tgt i \<longleftrightarrow> severity i = sev \<and> category i = cat \<and> target i = tgt"

text \<open>
  Example manifests.
\<close>

definition compressor :: manifest where
  "compressor = \<lparr>m_name = ''Compressor'', m_dependencies = Some [''EventBus'', ''HAL'', ''ESPhal''],
     m_event_bus = None, m_shared_state = None, m_apis = None\<rparr>"

text \<open>
  The non-empty method names of a list of API entries, of a group, and of a manifest
  (static group first, dynamic group second), in the order \<open>collect_manifest_data\<close>
  stores them.
\<close>

definition api_methods :: "api list \<Rightarrow> string list" where
  "api_methods as = filter (\<lambda>method. method \<noteq> []) (map (\<lambda>a. case map_of a ''method'' of None \<Rightarrow> [] | Some x \<Rightarrow> x) as)"

definition group_methods :: "api_group option \<Rightarrow> string list" where
  "group_methods g = (case g of Some (ApiGroupList as) \<Rightarrow> api_methods as | _ \<Rightarrow> [])"

definition registered_methods :: "manifest \<Rightarrow> string list" where
  "registered_methods mf = (case m_apis mf of Some (ApisDict static_apis dynamic_apis) \<Rightarrow> group_methods static_apis @ group_methods dynamic_apis | _ \<Rightarrow> [])"

text \<open>
  \<open>self.api_providers[method] = module_name\<close> for each method in turn.
\<close>

definition register_all :: "string \<Rightarrow> string list \<Rightarrow> string dict \<Rightarrow> string dict" where
  "register_all mn methods d = foldl (\<lambda>d method. AList.update method mn d) d methods"

text \<open>
  A manifest with its \<open>apis\<close> key removed.
\<close>

definition without_apis :: "manifest \<Rightarrow> manifest" where
  "without_apis mf = mf\<lparr>m_apis := None\<rparr>"

text \<open>
  A module whose static API group registers \<open>system.get\<close>, and a module that
  publishes \<open>sensor.updated\<close>.
\<close>

definition api_module :: "string \<Rightarrow> manifest" where
  "api_module n =
     \<lparr>m_name = n, m_dependencies = None, m_event_bus = None, m_shared_state = None,
      m_apis = Some (ApisDict (Some (ApiGroupList [[(''method'', ''system.get'')]])) None)\<rparr>"

definition publisher :: "string \<Rightarrow> manifest" where
  "publisher n =
     \<lparr>m_name = n, m_dependencies = None,
      m_event_bus = Some \<lparr>publishes = Some [''sensor.updated''], subscribes = None\<rparr>,
      m_shared_state = None, m_apis = None\<rparr>"

text \<open>
  A module that subscribes to an event nobody publishes.
\<close>

definition display :: manifest where
  "display = \<lparr>m_name = ''Display'', m_dependencies = None,
     m_event_bus = Some \<lparr>publishes = None, subscribes = Some [''z.w'']\<rparr>,
     m_shared_state = None, m_apis = None\<rparr>"

text \<open>
  A module whose event names are also its state keys.
\<close>

definition twin :: manifest where
  "twin = \<lparr>m_name = ''Twin'', m_dependencies = None,
     m_event_bus = Some \<lparr>publishes = Some [''x.y''], subscribes = Some [''z.w'']\<rparr>,
     m_shared_state = Some \<lparr>publishes = Some [''x.y''], subscribes = Some [''z.w'']\<rparr>,
     m_apis = None\<rparr>"

text \<open>
  Example inputs of the pipeline: a component tree with one module manifest, a tree with
  none (read at a given wall-clock time), and a schema no manifest conforms to.
\<close>

definition sensors_manifest :: module_manifest where
  "sensors_manifest =
     \<lparr>mm_module = Some (empty_module_section\<lparr>ms_name := Some ''Sensors''\<rparr>),
      mm_apis_static = Some (Some [[(''method'', ''sensor.get''), (''handler'', ''get_sensor'')]]),
      mm_ui = None,
      mm_shared_state_publishes = Some (Some [''temp.evap'']),
      mm_event_bus_publishes = Some (Some [''sensor.updated'']),
      mm_configuration = None\<rparr>"

definition one_module_tree :: environment where
  "one_module_tree =
     \<lparr>module_manifest_files = [''components/sensors/module_manifest.json''],
      driver_manifest_files = [],
      load_module_manifest = (\<lambda>path. Inr sensors_manifest),
      load_driver_manifest = (\<lambda>path. Inl OSError),
      clock = (\<lambda>n. ''2025-01-01 00:00:00''),
      other_emitters = (\<lambda>p. [])\<rparr>"


definition rejecting_schema :: "module_manifest schema" where
  "rejecting_schema mf = Some ValidationError"





section \<open>Properties\<close>

lemma collect_section_names_of:
  "collect_section mn sec part d = collect_names mn (names_of sec part) d"
  by (simp add: collect_section_def names_of_def collect_names_def split: option.splits)

lemma collect_names_Nil [simp]: "collect_names mn [] d = d"
  by (simp add: collect_names_def)

lemma collect_names_Cons [simp]:
  "collect_names mn (k # ks) d = collect_names mn ks (append_to k mn d)"
  by (simp add: collect_names_def)

lemma map_of_append_to:
  "map_of (append_to k mn d) = (map_of d)(k \<mapsto> entries d k @ [mn])"
  by (simp add: append_to_def entries_def update_conv')

lemma entries_append_to:
  "entries (append_to k mn d) k' = (if k' = k then entries d k @ [mn] else entries d k')"
  by (simp add: entries_def map_of_append_to)

lemma keys_append_to: "fst ` set (append_to k mn d) = insert k (fst ` set d)"
  by (simp add: append_to_def update_conv' flip: dom_map_of_conv_image_fst)

lemma distinct_append_to: "distinct (map fst d) \<Longrightarrow> distinct (map fst (append_to k mn d))"
  by (simp add: append_to_def distinct_update)

lemma entries_collect_names:
  "entries (collect_names mn ks d) k = entries d k @ map (\<lambda>_. mn) (filter (\<lambda>x. x = k) ks)"
  by (induction ks arbitrary: d) (auto simp: entries_append_to)

lemma keys_collect_names: "fst ` set (collect_names mn ks d) = fst ` set d \<union> set ks"
  by (induction ks arbitrary: d) (auto simp: keys_append_to)

lemma distinct_collect_names:
  "distinct (map fst d) \<Longrightarrow> distinct (map fst (collect_names mn ks d))"
  by (induction ks arbitrary: d) (auto simp: distinct_append_to)

lemma collect_table_Nil [simp]: "collect_table f d [] = d"
  by (simp add: collect_table_def)

lemma collect_table_Cons [simp]:
  "collect_table f d (mf # ms) = collect_table f (collect_names (m_name mf) (f mf) d) ms"
  by (simp add: collect_table_def)

lemma entries_collect_table:
  "entries (collect_table f d ms) k = entries d k @ contributions f ms k"
  by (induction ms arbitrary: d) (auto simp: entries_collect_names contributions_def)

lemma keys_collect_table:
  "fst ` set (collect_table f d ms) = fst ` set d \<union> (\<Union>mf\<in>set ms. set (f mf))"
  by (induction ms arbitrary: d) (auto simp: keys_collect_names)

lemma distinct_collect_table:
  "distinct (map fst d) \<Longrightarrow> distinct (map fst (collect_table f d ms))"
  by (induction ms arbitrary: d) (auto simp: distinct_collect_names)

lemma collect_all_Nil [simp]: "collect_all v [] = v"
  by (simp add: collect_all_def)

lemma collect_all_Cons [simp]:
  "collect_all v (mf # ms) = collect_all (collect_manifest_data v (m_name mf) mf) ms"
  by (simp add: collect_all_def)

lemma event_publishers_collect_all:
  "event_publishers (collect_all v ms) = collect_table published_events (event_publishers v) ms"
  by (induction ms arbitrary: v)
     (simp_all add: collect_manifest_data_def collect_section_names_of published_events_def)

lemma event_subscribers_collect_all:
  "event_subscribers (collect_all v ms) = collect_table subscribed_events (event_subscribers v) ms"
  by (induction ms arbitrary: v)
     (simp_all add: collect_manifest_data_def collect_section_names_of subscribed_events_def)

lemma state_publishers_collect_all:
  "state_publishers (collect_all v ms) = collect_table written_states (state_publishers v) ms"
  by (induction ms arbitrary: v)
     (simp_all add: collect_manifest_data_def collect_section_names_of written_states_def)

lemma state_subscribers_collect_all:
  "state_subscribers (collect_all v ms) = collect_table read_states (state_subscribers v) ms"
  by (induction ms arbitrary: v)
     (simp_all add: collect_manifest_data_def collect_section_names_of read_states_def)

lemma issues_collect_all: "issues (collect_all v ms) = issues v"
  by (induction ms arbitrary: v) (simp_all add: collect_manifest_data_def)

lemma contributions_empty_iff:
  "contributions f ms k = [] \<longleftrightarrow> (\<forall>mf\<in>set ms. k \<notin> set (f mf))"
  by (auto simp: contributions_def filter_empty_conv)

lemma filter_key_notin:
  "k \<notin> fst ` set d \<Longrightarrow> filter (\<lambda>(k', l'). k' = k \<and> Q k' l') d = []"
  by (induction d) force+

lemma filter_key_distinct:
  "distinct (map fst d) \<Longrightarrow> map_of d k = Some l \<Longrightarrow> filter (\<lambda>(k', l'). k' = k \<and> Q k' l') d = (if Q k l then [(k, l)] else [])"
proof (induction d)
  case Nil then show ?case by simp
next
  case (Cons a d)
  obtain k0 l0 where a: "a = (k0, l0)" by (cases a)
  show ?case
  proof (cases "k0 = k")
    case True
    with Cons.prems a have l: "l0 = l" by simp
    from Cons.prems a True have "k \<notin> fst ` set d" by auto
    then have "filter (\<lambda>(k', l'). k' = k \<and> Q k' l') d = []"
      by (rule filter_key_notin)
    with a True l show ?thesis by simp
  next
    case False
    with Cons a show ?thesis by simp
  qed
qed

lemma filter_key_absent:
  "map_of d k = None \<Longrightarrow> filter (\<lambda>(k', l'). k' = k \<and> Q k' l') d = []"
  by (rule filter_key_notin) (simp add: map_of_eq_None_iff)

lemma absent_or_empty_entries: "absent_or_empty d k \<longleftrightarrow> entries d k = []"
  by (simp add: absent_or_empty_def entries_def split: option.splits)

lemma map_of_entries:
  "k \<in> fst ` set d \<Longrightarrow> map_of d k = Some (entries d k)"
  by (cases "map_of d k") (auto simp: entries_def map_of_eq_None_iff)

lemma conj_commit: "(A \<and> B x \<and> x = e) = (x = e \<and> A \<and> B e)" "(B x \<and> x = e) = (x = e \<and> B e)"
  by auto

lemma filter_event_issues_warning:
  "filter (is_issue ''WARNING'' ''EVENT'' e) (event_issues v) =
     map orphan_event_issue (filter (\<lambda>(k, l). k = e \<and> absent_or_empty (event_subscribers v) e) (event_publishers v))"
  unfolding event_issues_def filter_append filter_map
  by (simp add: o_def is_issue_def orphan_event_issue_def
      missing_event_issue_def multi_event_issue_def split_def conj_commit)

lemma filter_event_issues_error:
  "filter (is_issue ''ERROR'' ''EVENT'' e) (event_issues v) =
     map missing_event_issue (filter (\<lambda>(k, l). k = e \<and> absent_or_empty (event_publishers v) e) (event_subscribers v))"
  unfolding event_issues_def filter_append filter_map
  by (simp add: o_def is_issue_def orphan_event_issue_def
      missing_event_issue_def multi_event_issue_def split_def conj_commit)

lemma filter_state_issues_event:
  "filter (is_issue s ''EVENT'' e) (state_issues v) = []"
  by (simp add: state_issues_def filter_map o_def is_issue_def orphan_state_issue_def
      missing_state_issue_def multi_state_issue_def split_def)

lemma filter_dependency_issues_event:
  "filter (is_issue s ''EVENT'' e) (dependency_issues ms) = []"
  by (auto simp: dependency_issues_def module_dependency_issues_def filter_empty_conv is_issue_def dependency_issue_def)

lemma issues_discovered:
  "issues (discovered v ms) =
     event_issues (collect_all (v\<lparr>issues := []\<rparr>) ms)
     @ state_issues (collect_all (v\<lparr>issues := []\<rparr>) ms)
     @ dependency_issues ms"
  by (simp add: discovered_def validate_dependencies_def validate_shared_state_def
      validate_events_def issues_collect_all event_issues_def state_issues_def)

lemma validate_all_issues:
  "snd (fst (validate_all v ms)) = sort_key severity_rank (issues (discovered v ms))"
  by (simp add: validate_all_def Let_def)

lemma init_tables [simp]:
  "event_publishers (init_validator\<lparr>issues := []\<rparr>) = []"
  "event_subscribers (init_validator\<lparr>issues := []\<rparr>) = []"
  "state_publishers (init_validator\<lparr>issues := []\<rparr>) = []"
  "state_subscribers (init_validator\<lparr>issues := []\<rparr>) = []"
  by (simp_all add: init_validator_def)

lemma entries_Nil [simp]: "entries [] k = []"
  by (simp add: entries_def)

lemma filter_event_category:
  "filter (is_issue s ''EVENT'' e) (issues (discovered v ms)) =
   filter (is_issue s ''EVENT'' e) (event_issues (collect_all (v\<lparr>issues := []\<rparr>) ms))"
  by (simp add: issues_discovered filter_state_issues_event filter_dependency_issues_event)

lemma selected_table_entry:
  assumes "\<exists>mf\<in>set ms. e \<in> set (f mf)" and "\<forall>mf\<in>set ms. e \<notin> set (g mf)"
  shows "filter (\<lambda>(k, l). k = e \<and> absent_or_empty (collect_table g [] ms) e) (collect_table f [] ms)
         = [(e, contributions f ms e)]"
proof -
  have d: "distinct (map fst (collect_table f [] ms))"
    by (rule distinct_collect_table) simp
  from assms(1) have "e \<in> fst ` set (collect_table f [] ms)"
    by (simp add: keys_collect_table)
  then have m: "map_of (collect_table f [] ms) e = Some (contributions f ms e)"
    by (simp add: map_of_entries entries_collect_table)
  from assms(2) have a: "absent_or_empty (collect_table g [] ms) e"
    by (simp add: absent_or_empty_entries entries_collect_table contributions_empty_iff)
  show ?thesis
    using filter_key_distinct [OF d m, of "\<lambda>_ _. absent_or_empty (collect_table g [] ms) e"] a
    by simp
qed

text \<open>
  The issues of category EVENT for one event, in terms of the functions that build them.
\<close>

lemma event_issue_selection:
  "((\<exists>mf\<in>set ms. e \<in> set (published_events mf)) \<and> (\<forall>mf\<in>set ms. e \<notin> set (subscribed_events mf)) \<longrightarrow>
      filter (\<lambda>i. severity i = ''WARNING'' \<and> category i = ''EVENT'' \<and> target i = e)
        (snd (fst (validate_all init_validator ms)))
      = [orphan_event_issue (e, contributions published_events ms e)])
   \<and> ((\<exists>mf\<in>set ms. e \<in> set (subscribed_events mf)) \<and> (\<forall>mf\<in>set ms. e \<notin> set (published_events mf)) \<longrightarrow>
      filter (\<lambda>i. severity i = ''ERROR'' \<and> category i = ''EVENT'' \<and> target i = e)
        (snd (fst (validate_all init_validator ms)))
      = [missing_event_issue (e, contributions subscribed_events ms e)])"
proof (intro conjI impI)
  let ?v = "collect_all (init_validator\<lparr>issues := []\<rparr>) ms"
  assume "(\<exists>mf\<in>set ms. e \<in> set (published_events mf)) \<and> (\<forall>mf\<in>set ms. e \<notin> set (subscribed_events mf))"
  then have "filter (\<lambda>(k, l). k = e \<and> absent_or_empty (event_subscribers ?v) e) (event_publishers ?v)
      = [(e, contributions published_events ms e)]"
    by (simp add: event_publishers_collect_all event_subscribers_collect_all selected_table_entry)
  then have "filter (is_issue ''WARNING'' ''EVENT'' e) (snd (fst (validate_all init_validator ms)))
      = [orphan_event_issue (e, contributions published_events ms e)]"
    by (simp add: validate_all_issues filter_sort filter_event_category filter_event_issues_warning)
  then show "filter (\<lambda>i. severity i = ''WARNING'' \<and> category i = ''EVENT'' \<and> target i = e)
        (snd (fst (validate_all init_validator ms)))
      = [orphan_event_issue (e, contributions published_events ms e)]"
    by (simp add: is_issue_def [abs_def])
next
  let ?v = "collect_all (init_validator\<lparr>issues := []\<rparr>) ms"
  assume "(\<exists>mf\<in>set ms. e \<in> set (subscribed_events mf)) \<and> (\<forall>mf\<in>set ms. e \<notin> set (published_events mf))"
  then have "filter (\<lambda>(k, l). k = e \<and> absent_or_empty (event_publishers ?v) e) (event_subscribers ?v)
      = [(e, contributions subscribed_events ms e)]"
    by (simp add: event_publishers_collect_all event_subscribers_collect_all selected_table_entry)
  then have "filter (is_issue ''ERROR'' ''EVENT'' e) (snd (fst (validate_all init_validator ms)))
      = [missing_event_issue (e, contributions subscribed_events ms e)]"
    by (simp add: validate_all_issues filter_sort filter_event_category filter_event_issues_error)
  then show "filter (\<lambda>i. severity i = ''ERROR'' \<and> category i = ''EVENT'' \<and> target i = e)
        (snd (fst (validate_all init_validator ms)))
      = [missing_event_issue (e, contributions subscribed_events ms e)]"
    by (simp add: is_issue_def [abs_def])
qed

lemma set_contributions:
  "set (contributions f ms k) = m_name ` {mf \<in> set ms. k \<in> set (f mf)}"
  by (auto simp: contributions_def)

text \<open>
  Claim C4, amended (orphan detection). Run \<open>validate_all\<close> on a fresh validator.
  If some module publishes the event \<open>e\<close> and no module subscribes to it, the returned
  issues contain exactly one WARNING of category EVENT with target \<open>e\<close>; its message
  is the orphan message and its source is the text \<open>', '.join\<close> makes of the publishing
  modules, which are exactly the modules of the input that publish \<open>e\<close>. If some module
  subscribes to \<open>e\<close> and no module publishes it, they contain exactly one ERROR of
  category EVENT with target \<open>e\<close>, whose source likewise lists exactly the subscribing
  modules.
\<close>

theorem orphan_detection:
  "((\<exists>mf\<in>set ms. e \<in> set (published_events mf)) \<and> (\<forall>mf\<in>set ms. e \<notin> set (subscribed_events mf)) \<longrightarrow>
      filter (\<lambda>i. severity i = ''WARNING'' \<and> category i = ''EVENT'' \<and> target i = e)
        (snd (fst (validate_all init_validator ms)))
      = [\<lparr>severity = ''WARNING'', category = ''EVENT'',
          message = ''Event '' @ squote e @ '' is published but has no subscribers'',
          source_module = join '', '' (contributions published_events ms e),
          target = e\<rparr>]
      \<and> set (contributions published_events ms e)
          = m_name ` {mf \<in> set ms. e \<in> set (published_events mf)})
   \<and> ((\<exists>mf\<in>set ms. e \<in> set (subscribed_events mf)) \<and> (\<forall>mf\<in>set ms. e \<notin> set (published_events mf)) \<longrightarrow>
      filter (\<lambda>i. severity i = ''ERROR'' \<and> category i = ''EVENT'' \<and> target i = e)
        (snd (fst (validate_all init_validator ms)))
      = [\<lparr>severity = ''ERROR'', category = ''EVENT'',
          message = ''Event '' @ squote e @ '' has subscribers but no publisher'',
          source_module = join '', '' (contributions subscribed_events ms e),
          target = e\<rparr>]
      \<and> set (contributions subscribed_events ms e)
          = m_name ` {mf \<in> set ms. e \<in> set (subscribed_events mf)})"
  using event_issue_selection [of ms e]
  by (simp add: orphan_event_issue_def missing_event_issue_def set_contributions)

lemma event_issues_category: "i \<in> set (event_issues v) \<Longrightarrow> category i = ''EVENT''"
  by (auto simp: event_issues_def orphan_event_issue_def missing_event_issue_def multi_event_issue_def)

lemma state_issues_category: "i \<in> set (state_issues v) \<Longrightarrow> category i = ''STATE''"
  by (auto simp: state_issues_def orphan_state_issue_def missing_state_issue_def multi_state_issue_def)

lemma dependency_issues_category: "i \<in> set (dependency_issues ms) \<Longrightarrow> category i = ''DEPENDENCY''"
  by (auto simp: dependency_issues_def module_dependency_issues_def dependency_issue_def)

lemma set_dependency_issues:
  "set (dependency_issues ms) =
     {dependency_issue (m_name mf) dep | mf dep.
        mf \<in> set ms \<and> dep \<in> set (dependencies_of mf)
        \<and> dep \<notin> set system_dependencies \<and> dep \<notin> m_name ` set ms}"
  by (auto simp: dependency_issues_def module_dependency_issues_def)

lemma dependency_issue_inj:
  "dependency_issue a d = dependency_issue a' d' \<longleftrightarrow> a = a' \<and> d = d'"
  by (auto simp: dependency_issue_def)

lemma target_dependency_issue: "target (dependency_issue a d) = d"
  by (simp add: dependency_issue_def)

lemma dependency_category_issues:
  "{i \<in> set (snd (fst (validate_all v ms))). category i = ''DEPENDENCY''} = set (dependency_issues ms)"
  by (auto simp: validate_all_issues issues_discovered
      dest: event_issues_category state_issues_category dependency_issues_category)

lemma dependency_issue_selection:
  assumes "mf \<in> set ms" and "dep \<in> set (dependencies_of mf)"
  shows "(dependency_issue (m_name mf) dep \<in> set (snd (fst (validate_all v ms))))
           = (dep \<notin> m_name ` set ms \<and> dep \<notin> set system_dependencies)
       \<and> (\<exists>i\<in>set (snd (fst (validate_all v ms))). category i = ''DEPENDENCY'' \<and> target i = dep)
           = (dep \<notin> m_name ` set ms \<and> dep \<notin> set system_dependencies)"
proof -
  have c: "category (dependency_issue (m_name mf) dep) = ''DEPENDENCY''"
    by (simp add: dependency_issue_def)
  have "(dependency_issue (m_name mf) dep \<in> set (snd (fst (validate_all v ms))))
      = (dependency_issue (m_name mf) dep \<in> set (dependency_issues ms))"
    using c dependency_category_issues [of v ms] by blast
  also have "\<dots> = (dep \<notin> m_name ` set ms \<and> dep \<notin> set system_dependencies)"
    using assms by (auto simp: set_dependency_issues dependency_issue_inj)
  finally have one: "(dependency_issue (m_name mf) dep \<in> set (snd (fst (validate_all v ms))))
           = (dep \<notin> m_name ` set ms \<and> dep \<notin> set system_dependencies)" .
  have "(\<exists>i\<in>set (snd (fst (validate_all v ms))). category i = ''DEPENDENCY'' \<and> target i = dep)
      = (\<exists>i\<in>set (dependency_issues ms). target i = dep)"
    using dependency_category_issues [of v ms] by blast
  also have "\<dots> = (dep \<notin> m_name ` set ms \<and> dep \<notin> set system_dependencies)"
    using assms by (force simp: set_dependency_issues target_dependency_issue)
  finally show ?thesis using one by simp
qed

lemma dependency_issues_error: "i \<in> set (dependency_issues ms) \<Longrightarrow> severity i = ''ERROR''"
  by (auto simp: dependency_issues_def module_dependency_issues_def dependency_issue_def)

lemma dependency_issues_severity:
  "filter (\<lambda>i. category i = ''DEPENDENCY'' \<and> severity i \<noteq> ''ERROR'') (snd (fst (validate_all v ms))) = []"
proof -
  have "severity i = ''ERROR''"
    if "i \<in> set (snd (fst (validate_all v ms)))" and "category i = ''DEPENDENCY''" for i
  proof -
    from that have "i \<in> set (dependency_issues ms)"
      using dependency_category_issues [of v ms] by blast
    then show ?thesis by (rule dependency_issues_error)
  qed
  then show ?thesis by (auto simp: filter_empty_conv)
qed

text \<open>
  Claim C5 with the allow-list of the code (\<open>ESPhal\<close>, \<open>SharedState\<close>,
  \<open>EventBus\<close>, \<open>ConfigManager\<close>). For a dependency \<open>dep\<close> declared by a module
  \<open>mf\<close> of the validated list: the issue with severity ERROR, category DEPENDENCY,
  source the name of \<open>mf\<close>, target \<open>dep\<close> and the message naming \<open>dep\<close> is among
  the returned issues exactly when \<open>dep\<close> is neither the name of a validated module nor
  on that list; exactly then is there any DEPENDENCY issue with target \<open>dep\<close> at all;
  and no DEPENDENCY issue has another severity than ERROR.
\<close>

theorem dependency_resolution:
  assumes "mf \<in> set ms" and "dep \<in> set (dependencies_of mf)"
  shows "(\<lparr>severity = ''ERROR'', category = ''DEPENDENCY'',
           message = ''Module depends on non-existent module '' @ squote dep,
           source_module = m_name mf, target = dep\<rparr>
            \<in> set (snd (fst (validate_all v ms))))
           = (dep \<notin> m_name ` set ms \<and> dep \<notin> set system_dependencies)
       \<and> (\<exists>i\<in>set (snd (fst (validate_all v ms))). category i = ''DEPENDENCY'' \<and> target i = dep)
           = (dep \<notin> m_name ` set ms \<and> dep \<notin> set system_dependencies)
       \<and> filter (\<lambda>i. category i = ''DEPENDENCY'' \<and> severity i \<noteq> ''ERROR'')
            (snd (fst (validate_all v ms))) = []
       \<and> system_dependencies = [''ESPhal'', ''SharedState'', ''EventBus'', ''ConfigManager'']"
proof -
  note sel = dependency_issue_selection [OF assms, of v, unfolded dependency_issue_def]
  show ?thesis
    apply (intro conjI)
       apply (rule sel [THEN conjunct1])
      apply (rule sel [THEN conjunct2])
     apply (rule dependency_issues_severity)
    apply (rule system_dependencies_def)
    done
qed

text \<open>
  Claim C5 as the specification words it fails: \<open>HAL\<close> is on the specification's
  allow-list, yet a module depending on \<open>HAL\<close> gets a DEPENDENCY error (and
  \<open>ESPhal\<close>, which is not on that list, gets none).
\<close>

theorem dependency_allow_list_counterexample:
  "fst (validate_all init_validator [compressor])
     = (False, [\<lparr>severity = ''ERROR'', category = ''DEPENDENCY'',
                  message = ''Module depends on non-existent module '' @ squote ''HAL'',
                  source_module = ''Compressor'', target = ''HAL''\<rparr>])"
  by (simp add: validate_all_def discovered_def Let_def init_validator_def compressor_def
      collect_manifest_data_def collect_section_def collect_apis_def
      validate_events_def event_issues_def validate_shared_state_def state_issues_def
      validate_dependencies_def dependency_issues_def module_dependency_issues_def
      dependencies_of_def system_dependencies_def dependency_issue_def)

text \<open>
  Claim C5 (amended) at a concrete input: \<open>Compressor\<close> depends on \<open>EventBus\<close>,
  \<open>HAL\<close> and \<open>ESPhal\<close>.
\<close>

theorem dependency_resolution_witness:
  "compressor \<in> set [compressor] \<and> ''HAL'' \<in> set (dependencies_of compressor)
   \<and> ''EventBus'' \<in> set (dependencies_of compressor)
   \<and> \<lparr>severity = ''ERROR'', category = ''DEPENDENCY'',
        message = ''Module depends on non-existent module '' @ squote ''HAL'',
        source_module = ''Compressor'', target = ''HAL''\<rparr>
        \<in> set (snd (fst (validate_all init_validator [compressor])))
   \<and> \<not> (\<exists>i\<in>set (snd (fst (validate_all init_validator [compressor]))). category i = ''DEPENDENCY'' \<and> target i = ''EventBus'')"
proof -
  have m: "compressor \<in> set [compressor]" by simp
  have h: "''HAL'' \<in> set (dependencies_of compressor)"
    and e: "''EventBus'' \<in> set (dependencies_of compressor)"
    by (simp_all add: compressor_def dependencies_of_def)
  have n: "m_name compressor = ''Compressor''" by (simp add: compressor_def)
  have hal: "''HAL'' \<notin> m_name ` set [compressor] \<and> ''HAL'' \<notin> set system_dependencies"
    by (simp add: n system_dependencies_def)
  have bus: "\<not> (''EventBus'' \<notin> m_name ` set [compressor] \<and> ''EventBus'' \<notin> set system_dependencies)"
    by (simp add: system_dependencies_def)
  have 1: "\<lparr>severity = ''ERROR'', category = ''DEPENDENCY'',
        message = ''Module depends on non-existent module '' @ squote ''HAL'',
        source_module = m_name compressor, target = ''HAL''\<rparr>
        \<in> set (snd (fst (validate_all init_validator [compressor])))"
    using dependency_resolution [OF m h, of init_validator, THEN conjunct1] hal by (rule iffD2)
  have 2: "\<not> (\<exists>i\<in>set (snd (fst (validate_all init_validator [compressor]))). category i = ''DEPENDENCY'' \<and> target i = ''EventBus'')"
    using dependency_resolution [OF m e, of init_validator, THEN conjunct2, THEN conjunct1] bus
    by blast
  from 1 have 3: "\<lparr>severity = ''ERROR'', category = ''DEPENDENCY'',
        message = ''Module depends on non-existent module '' @ squote ''HAL'',
        source_module = ''Compressor'', target = ''HAL''\<rparr>
        \<in> set (snd (fst (validate_all init_validator [compressor])))"
    by (simp only: n)
  from m h e 3 2 show ?thesis by (intro conjI)
qed

lemma sort_key_const:
  assumes "\<And>x. x \<in> set xs \<Longrightarrow> f x = c"
  shows "sort_key f xs = xs"
proof -
  have "filter (\<lambda>y. f y = c) (sort_key f xs) = filter (\<lambda>y. f y = c) xs"
    by (rule sort_key_stable)
  moreover have "filter (\<lambda>y. f y = c) (sort_key f xs) = sort_key f xs"
    using assms by (simp add: filter_id_conv)
  moreover have "filter (\<lambda>y. f y = c) xs = xs"
    using assms by (simp add: filter_id_conv)
  ultimately show ?thesis by simp
qed

lemma severity_rank_cong: "severity i = severity j \<Longrightarrow> severity_rank i = severity_rank j"
  by (simp add: severity_rank_def)

text \<open>
  Claim C9 (issue order). The list \<open>validate_all\<close> returns is sorted ascending by
  severity rank; the issues of any one severity appear in it in the order in which the
  validations discovered them; and the ranks are ERROR 0, WARNING 1, INFO 2.
\<close>

theorem issues_sorted_stable:
  "sorted (map severity_rank (snd (fst (validate_all v ms))))
   \<and> filter (\<lambda>i. severity i = s) (snd (fst (validate_all v ms)))
       = filter (\<lambda>i. severity i = s) (issues (discovered v ms))
   \<and> severity_rank (i\<lparr>severity := ''ERROR''\<rparr>) = 0
   \<and> severity_rank (i\<lparr>severity := ''WARNING''\<rparr>) = 1
   \<and> severity_rank (i\<lparr>severity := ''INFO''\<rparr>) = 2"
proof -
  let ?xs = "issues (discovered v ms)"
  have "sort_key severity_rank (filter (\<lambda>i. severity i = s) ?xs) = filter (\<lambda>i. severity i = s) ?xs"
  proof (rule sort_key_const)
    fix x assume "x \<in> set (filter (\<lambda>i. severity i = s) ?xs)"
    then have "severity x = severity (x\<lparr>severity := s\<rparr>)" by simp
    then have "severity_rank x = severity_rank (x\<lparr>severity := s\<rparr>)" by (rule severity_rank_cong)
    then show "severity_rank x = (if s = ''ERROR'' then 0 else if s = ''WARNING'' then 1 else if s = ''INFO'' then 2 else 999)"
      by (simp add: severity_rank_def)
  qed
  then show ?thesis
    by (simp add: validate_all_issues filter_sort severity_rank_def)
qed

lemma mset_contributions:
  "mset (contributions f ms k) = (\<Sum>mf\<in>#mset ms. mset (map (\<lambda>_. m_name mf) (filter (\<lambda>x. x = k) (f mf))))"
  by (induction ms) (simp_all add: contributions_def)

lemma map_of_collect_table:
  "map_of (collect_table f d ms) k =
     (if k \<in> fst ` set d \<union> (\<Union>mf\<in>set ms. set (f mf))
      then Some (entries d k @ contributions f ms k) else None)"
proof (cases "k \<in> fst ` set (collect_table f d ms)")
  case True
  then show ?thesis
    using map_of_entries [OF True] by (simp add: entries_collect_table keys_collect_table)
next
  case False
  then have "map_of (collect_table f d ms) k = None" by (simp add: map_of_eq_None_iff)
  with False show ?thesis by (simp add: keys_collect_table)
qed

lemma collect_table_permutation:
  assumes "mset ms = mset ms'"
  shows "map_option mset (map_of (collect_table f d ms) k) = map_option mset (map_of (collect_table f d ms') k)"
proof -
  from assms have "set ms = set ms'" by (rule mset_eq_setD)
  with assms show ?thesis by (simp add: map_of_collect_table mset_contributions)
qed

lemma register_all_append: "register_all mn (xs @ ys) d = register_all mn ys (register_all mn xs d)"
  by (simp add: register_all_def)

lemma foldl_collect_api: "foldl (collect_api mn) d as = register_all mn (api_methods as) d"
  by (induction as arbitrary: d) (simp_all add: register_all_def api_methods_def collect_api_def Let_def)

lemma collect_api_group_methods: "collect_api_group mn g d = register_all mn (group_methods g) d"
  by (auto simp: collect_api_group_def group_methods_def foldl_collect_api register_all_def split: option.splits api_group.splits)

lemma collect_apis_methods: "collect_apis mn (m_apis mf) d = register_all mn (registered_methods mf) d"
  by (auto simp: collect_apis_def registered_methods_def collect_api_group_methods register_all_append register_all_def
      split: option.splits apis_entry.splits)

lemma map_of_register_all:
  "map_of (register_all mn ks d) k = (if k \<in> set ks then Some mn else map_of d k)"
  by (induction ks arbitrary: d) (auto simp: register_all_def update_conv')

lemma keys_register_all: "fst ` set (register_all mn ks d) = fst ` set d \<union> set ks"
  by (induction ks arbitrary: d) (auto simp: register_all_def update_conv' simp flip: dom_map_of_conv_image_fst)

lemma api_providers_collect_manifest_data:
  "api_providers (collect_manifest_data v mn mf) = register_all mn (registered_methods mf) (api_providers v)"
  by (simp add: collect_manifest_data_def collect_apis_methods)

lemma keys_api_providers:
  "fst ` set (api_providers (collect_all v ms)) = fst ` set (api_providers v) \<union> (\<Union>mf\<in>set ms. set (registered_methods mf))"
  by (induction ms arbitrary: v) (auto simp: api_providers_collect_manifest_data keys_register_all)

text \<open>
  Claim C8, amended: collecting the same manifests in another order gives tables with the
  same keys, and under each key the same module names with the same multiplicities; the
  API table has the same methods. (The order of each module list, and the owner of a
  method that several modules register, follow the collection order.)
\<close>

theorem index_up_to_order:
  assumes "mset ms = mset ms'"
  shows "map_option mset (map_of (event_publishers (collect_all v ms)) k)
           = map_option mset (map_of (event_publishers (collect_all v ms')) k)
       \<and> map_option mset (map_of (event_subscribers (collect_all v ms)) k)
           = map_option mset (map_of (event_subscribers (collect_all v ms')) k)
       \<and> map_option mset (map_of (state_publishers (collect_all v ms)) k)
           = map_option mset (map_of (state_publishers (collect_all v ms')) k)
       \<and> map_option mset (map_of (state_subscribers (collect_all v ms)) k)
           = map_option mset (map_of (state_subscribers (collect_all v ms')) k)
       \<and> fst ` set (api_providers (collect_all v ms)) = fst ` set (api_providers (collect_all v ms'))"
proof -
  from assms have "set ms = set ms'" by (rule mset_eq_setD)
  then have "fst ` set (api_providers (collect_all v ms)) = fst ` set (api_providers (collect_all v ms'))"
    by (simp add: keys_api_providers)
  then show ?thesis
    using collect_table_permutation [OF assms, of published_events "event_publishers v" k]
      collect_table_permutation [OF assms, of subscribed_events "event_subscribers v" k]
      collect_table_permutation [OF assms, of written_states "state_publishers v" k]
      collect_table_permutation [OF assms, of read_states "state_subscribers v" k]
    by (simp only: event_publishers_collect_all event_subscribers_collect_all
        state_publishers_collect_all state_subscribers_collect_all simp_thms)
qed

lemma api_providers_snoc:
  "api_providers (collect_all v (ms @ [mf])) = register_all (m_name mf) (registered_methods mf) (api_providers (collect_all v ms))"
  by (simp add: collect_all_def api_providers_collect_manifest_data)

lemma api_providers_later:
  "\<forall>mf\<in>set later. method \<notin> set (registered_methods mf) \<Longrightarrow>
   map_of (api_providers (collect_all v later)) method = map_of (api_providers v) method"
  by (induction later arbitrary: v) (simp_all add: api_providers_collect_manifest_data map_of_register_all)

lemma collect_all_append: "collect_all v (xs @ ys) = collect_all (collect_all v xs) ys"
  by (simp add: collect_all_def)

lemma m_name_without_apis [simp]: "m_name (without_apis mf) = m_name mf"
  by (simp add: without_apis_def)

lemma collect_table_without_apis:
  assumes "\<And>mf. f (without_apis mf) = f mf"
  shows "collect_table f d (map without_apis ms) = collect_table f d ms"
  by (induction ms arbitrary: d) (simp_all add: assms)

lemma names_without_apis [simp]:
  "published_events (without_apis mf) = published_events mf"
  "subscribed_events (without_apis mf) = subscribed_events mf"
  "written_states (without_apis mf) = written_states mf"
  "read_states (without_apis mf) = read_states mf"
  by (simp_all add: without_apis_def published_events_def subscribed_events_def written_states_def read_states_def)

lemma module_dependency_issues_without_apis [simp]:
  "module_dependency_issues N (without_apis mf) = module_dependency_issues N mf"
  by (simp add: module_dependency_issues_def without_apis_def dependencies_of_def)

lemma dependency_issues_without_apis:
  "dependency_issues (map without_apis ms) = dependency_issues ms"
  by (simp add: dependency_issues_def o_def)

lemma discovered_without_apis:
  "issues (discovered v (map without_apis ms)) = issues (discovered v ms)"
  by (simp add: issues_discovered event_issues_def state_issues_def dependency_issues_without_apis
      event_publishers_collect_all event_subscribers_collect_all
      state_publishers_collect_all state_subscribers_collect_all collect_table_without_apis)

text \<open>
  Claim C7, amended: a method registered by several modules is owned by the module that
  was collected last among them, and the verdict and the issues of \<open>validate_all\<close> are
  those of the same manifests without their \<open>apis\<close> entries, so no issue ever reports
  a duplicate registration.
\<close>

theorem duplicate_api_last_writer:
  assumes "method \<in> set (registered_methods mf)"
    and "\<forall>mf'\<in>set later. method \<notin> set (registered_methods mf')"
  shows "map_of (api_providers (collect_all v (earlier @ mf # later))) method = Some (m_name mf)
       \<and> fst (validate_all v (earlier @ mf # later))
           = fst (validate_all v (map without_apis (earlier @ mf # later)))"
proof -
  have "map_of (api_providers (collect_all v (earlier @ mf # later))) method
      = map_of (api_providers (collect_all v (earlier @ [mf]))) method"
    using api_providers_later [OF assms(2), of "collect_all v (earlier @ [mf])"]
    by (simp add: collect_all_append)
  also have "\<dots> = Some (m_name mf)"
    using assms(1) by (simp add: api_providers_snoc map_of_register_all)
  finally show ?thesis
    using discovered_without_apis [of v "earlier @ mf # later"]
    by (simp add: validate_all_def Let_def del: map_append list.map)
qed

lemmas validator_eval =
  validate_all_def discovered_def Let_def init_validator_def collect_all_def
  collect_manifest_data_def collect_section_def collect_names_def append_to_def
  collect_apis_def collect_api_group_def collect_api_def
  validate_events_def event_issues_def validate_shared_state_def state_issues_def
  validate_dependencies_def dependency_issues_def module_dependency_issues_def
  dependencies_of_def system_dependencies_def absent_or_empty_def

text \<open>
  Claim C7 as stated fails: two modules register \<open>system.get\<close>; the validation passes
  with no issue, and the API table names the second module only.
\<close>

theorem duplicate_api_counterexample:
  "fst (validate_all init_validator [api_module ''A'', api_module ''B'']) = (True, [])
   \<and> api_providers (snd (validate_all init_validator [api_module ''A'', api_module ''B'']))
       = [(''system.get'', ''B'')]"
  by (simp add: validator_eval api_module_def)

text \<open>
  Claim C7 (amended) at a concrete input.
\<close>

theorem duplicate_api_last_writer_witness:
  "''system.get'' \<in> set (registered_methods (api_module ''B''))
   \<and> map_of (api_providers (collect_all init_validator ([api_module ''A''] @ api_module ''B'' # []))) ''system.get'' = Some ''B''
   \<and> fst (validate_all init_validator ([api_module ''A''] @ api_module ''B'' # []))
       = fst (validate_all init_validator (map without_apis ([api_module ''A''] @ api_module ''B'' # [])))"
  using duplicate_api_last_writer [of "''system.get''" "api_module ''B''" "[]" init_validator "[api_module ''A'']"]
  by (simp add: registered_methods_def group_methods_def api_methods_def api_module_def)

text \<open>
  Claim C8 as stated fails: two modules publishing the same event are listed under it in
  the order in which they were collected.
\<close>

theorem index_order_counterexample:
  "mset [publisher ''A'', publisher ''B''] = mset [publisher ''B'', publisher ''A'']
   \<and> event_publishers (collect_all init_validator [publisher ''A'', publisher ''B''])
       = [(''sensor.updated'', [''A'', ''B''])]
   \<and> event_publishers (collect_all init_validator [publisher ''B'', publisher ''A''])
       = [(''sensor.updated'', [''B'', ''A''])]"
  by (simp add: validator_eval publisher_def)

text \<open>
  Claim C8 (amended) at a concrete input.
\<close>

theorem index_up_to_order_witness:
  "mset [publisher ''A'', publisher ''B''] = mset [publisher ''B'', publisher ''A'']
   \<and> map_option mset (map_of (event_publishers (collect_all init_validator [publisher ''A'', publisher ''B''])) ''sensor.updated'')
       = map_option mset (map_of (event_publishers (collect_all init_validator [publisher ''B'', publisher ''A''])) ''sensor.updated'')"
proof -
  have h: "mset [publisher ''A'', publisher ''B''] = mset [publisher ''B'', publisher ''A'']"
    by simp
  show ?thesis
    using h index_up_to_order [OF h, of init_validator "''sensor.updated''"] by simp
qed

lemmas issue_eval =
  orphan_event_issue_def missing_event_issue_def multi_event_issue_def
  orphan_state_issue_def missing_state_issue_def multi_state_issue_def
  dependency_issue_def severity_rank_def

text \<open>
  Claim C4 as stated fails: the issue list is shared with the state validation, so when
  the orphan event \<open>x.y\<close> is also a state key written and never read there are two
  WARNINGs with target \<open>x.y\<close>, and likewise two ERRORs with target \<open>z.w\<close>.
\<close>

theorem orphan_same_name_counterexample:
  "filter (\<lambda>i. severity i = ''WARNING'' \<and> target i = ''x.y'')
     (snd (fst (validate_all init_validator [twin])))
   = [\<lparr>severity = ''WARNING'', category = ''EVENT'',
       message = ''Event '' @ squote ''x.y'' @ '' is published but has no subscribers'',
       source_module = ''Twin'', target = ''x.y''\<rparr>,
      \<lparr>severity = ''WARNING'', category = ''STATE'',
       message = ''State '' @ squote ''x.y'' @ '' is written but never read'',
       source_module = ''Twin'', target = ''x.y''\<rparr>]
   \<and> filter (\<lambda>i. severity i = ''ERROR'' \<and> target i = ''z.w'')
     (snd (fst (validate_all init_validator [twin])))
   = [\<lparr>severity = ''ERROR'', category = ''EVENT'',
       message = ''Event '' @ squote ''z.w'' @ '' has subscribers but no publisher'',
       source_module = ''Twin'', target = ''z.w''\<rparr>,
      \<lparr>severity = ''ERROR'', category = ''STATE'',
       message = ''State '' @ squote ''z.w'' @ '' is read but never written'',
       source_module = ''Twin'', target = ''z.w''\<rparr>]"
  by (simp add: validator_eval issue_eval twin_def)

text \<open>
  Claim C4 (amended) at a concrete input: \<open>Sensors\<close> and \<open>Probe\<close> publish
  \<open>sensor.updated\<close>, \<open>Display\<close> subscribes to \<open>z.w\<close>.
\<close>

theorem orphan_detection_witness:
  "filter (\<lambda>i. severity i = ''WARNING'' \<and> category i = ''EVENT'' \<and> target i = ''sensor.updated'')
        (snd (fst (validate_all init_validator [publisher ''Sensors'', display, publisher ''Probe''])))
      = [\<lparr>severity = ''WARNING'', category = ''EVENT'',
          message = ''Event '' @ squote ''sensor.updated'' @ '' is published but has no subscribers'',
          source_module = ''Sensors, Probe'', target = ''sensor.updated''\<rparr>]
   \<and> filter (\<lambda>i. severity i = ''ERROR'' \<and> category i = ''EVENT'' \<and> target i = ''z.w'')
        (snd (fst (validate_all init_validator [publisher ''Sensors'', display, publisher ''Probe''])))
      = [\<lparr>severity = ''ERROR'', category = ''EVENT'',
          message = ''Event '' @ squote ''z.w'' @ '' has subscribers but no publisher'',
          source_module = ''Display'', target = ''z.w''\<rparr>]"
proof -
  let ?ms = "[publisher ''Sensors'', display, publisher ''Probe'']"
  have p: "(\<exists>mf\<in>set ?ms. ''sensor.updated'' \<in> set (published_events mf))
      \<and> (\<forall>mf\<in>set ?ms. ''sensor.updated'' \<notin> set (subscribed_events mf))"
    by (simp add: published_events_def subscribed_events_def names_of_def publisher_def display_def)
  have s: "(\<exists>mf\<in>set ?ms. ''z.w'' \<in> set (subscribed_events mf))
      \<and> (\<forall>mf\<in>set ?ms. ''z.w'' \<notin> set (published_events mf))"
    by (simp add: published_events_def subscribed_events_def names_of_def publisher_def display_def)
  have jp: "join '', '' (contributions published_events ?ms ''sensor.updated'') = ''Sensors, Probe''"
    by (simp add: contributions_def published_events_def names_of_def publisher_def display_def)
  have js: "join '', '' (contributions subscribed_events ?ms ''z.w'') = ''Display''"
    by (simp add: contributions_def subscribed_events_def names_of_def publisher_def display_def)
  note w = orphan_detection [of ?ms "''sensor.updated''", THEN conjunct1, THEN mp, OF p, THEN conjunct1]
  note e = orphan_detection [of ?ms "''z.w''", THEN conjunct2, THEN mp, OF s, THEN conjunct1]
  from w e show ?thesis by (simp only: jp js simp_thms)
qed

lemmas parser_eval =
  parse_manifests_def parse_module_step_def parse_driver_step_def parse_module_manifest_def
  parse_driver_manifest_def new_module_def get_default_def empty_module_section_def
  extract_apis_def extract_ui_def extract_shared_state_def extract_events_def
  extract_configuration_def init_processor_def collect_names_def append_to_def Let_def

lemma all_manifests_raises:
  "ms \<noteq> [] \<Longrightarrow> all_manifests p ms = Inl (AttributeError ''ModuleInfo'' ''shared_state'')"
  by (cases ms) (simp_all add: consistency_manifest_def module_shared_state_def Let_def)

lemma validate_manifest_consistency_raises:
  "modules p \<noteq> [] \<Longrightarrow>
   validate_manifest_consistency p = Inl (AttributeError ''ModuleInfo'' ''shared_state'')"
  by (simp add: validate_manifest_consistency_def all_manifests_raises)

text \<open>
  Claim C1. Whenever parsing leaves at least one module in \<open>self.modules\<close>, the run
  ends in the uncaught \<open>AttributeError\<close> raised by \<open>module.shared_state\<close> inside
  \<open>validate_manifest_consistency\<close>: dependency resolution and code generation are not
  reached and no generated file is written.
\<close>

theorem process_all_aborts:
  "modules (parse_manifests env p) \<noteq> [] \<Longrightarrow>
   process_all env p =
     \<lparr>outcome = Raised (AttributeError ''ModuleInfo'' ''shared_state''),
      final = parse_manifests env p, written = []\<rparr>"
  by (simp add: process_all_def Let_def validate_manifest_consistency_raises)

lemma parse_one_module_tree:
  "modules (parse_manifests one_module_tree (init_processor None None)) =
     [\<lparr>name = ''Sensors'', type = ''STANDARD'', version = ''0.0.0'', description = [],
       priority = ''NORMAL'', dependencies = [],
       apis = [[(''method'', ''sensor.get''), (''handler'', ''get_sensor''), (''module'', ''Sensors'')]],
       ui_pages = [], shared_state_keys = [''temp.evap''], events = [''sensor.updated''],
       config_file = None, manifest_path = ''components/sensors/module_manifest.json'',
       ui = \<lparr>static = None, ui_other = []\<rparr>, driver_interface = None\<rparr>]"
  by (simp add: parser_eval one_module_tree_def sensors_manifest_def)

text \<open>
  Claim C1 at a concrete input: a tree with the single manifest of \<open>Sensors\<close>, no schema
  loaded.
\<close>

theorem process_all_aborts_witness:
  "modules (parse_manifests one_module_tree (init_processor None None)) \<noteq> []
   \<and> outcome (process_all one_module_tree (init_processor None None))
       = Raised (AttributeError ''ModuleInfo'' ''shared_state'')
   \<and> written (process_all one_module_tree (init_processor None None)) = []"
  using process_all_aborts [of one_module_tree "init_processor None None"]
  by (simp add: parse_one_module_tree)

text \<open>
  Claim C10. With a schema loaded, a manifest on which \<open>jsonschema.validate\<close> raises
  \<open>ValidationError\<close> makes \<open>parse_module_manifest\<close> return \<open>None\<close> with the
  processor (modules, all\_apis, all\_ui\_schemas, all\_events and the rest) exactly as it
  was, and the loop of \<open>parse_manifests\<close> appends nothing for it.
\<close>

theorem parse_module_manifest_atomic:
  assumes "load_module_manifest env path = Inr mf"
    and "module_schema p = Some validate"
    and "validate mf = Some ValidationError"
  shows "parse_module_manifest env p path = (Inr None, p) \<and> parse_module_step env p path = p"
  using assms by (simp add: parse_module_manifest_def parse_module_step_def)

text \<open>
  Claim C10 at a concrete input: the manifest of \<open>Sensors\<close> (which has APIs, events and
  state keys to extract) against a schema that rejects it.
\<close>

theorem parse_module_manifest_atomic_witness:
  "parse_module_manifest one_module_tree (init_processor (Some rejecting_schema) None)
      ''components/sensors/module_manifest.json''
     = (Inr None, init_processor (Some rejecting_schema) None)
   \<and> parse_manifests one_module_tree (init_processor (Some rejecting_schema) None)
     = init_processor (Some rejecting_schema) None"
  using parse_module_manifest_atomic [of one_module_tree "''components/sensors/module_manifest.json''"
      sensors_manifest "init_processor (Some rejecting_schema) None" rejecting_schema]
  by (simp add: one_module_tree_def init_processor_def rejecting_schema_def parse_manifests_def)

text \<open>
  The verdict of \<open>validate_all\<close> is true exactly when no returned issue is an ERROR, and
  \<open>process_all\<close> exits with code 1 and writes nothing exactly when
  \<open>validate_manifest_consistency\<close> returns false.
\<close>

lemma validate_all_verdict:
  "fst (fst (validate_all v ms))
     = (\<not> list_ex (\<lambda>issue. severity issue = ''ERROR'') (snd (fst (validate_all v ms))))"
  by (simp add: validate_all_def Let_def)

lemma process_all_gate:
  "validate_manifest_consistency (parse_manifests env p) = Inr ok \<Longrightarrow>
   outcome (process_all env p) = (if ok then Completed else SysExit 1)
   \<and> written (process_all env p) = (if ok then generate_code env (parse_manifests env p) else [])"
  by (simp add: process_all_def Let_def)

text \<open>
  Claim C3 at a failing input. A tree with the single, consistent manifest of \<open>Sensors\<close>:
  the run fails with the \<open>AttributeError\<close> and writes no generated file, although the
  validator never produced an ERROR issue (it did not run; on the dict
  \<open>_module_to_dict\<close> builds for this module it finds nothing).
\<close>

theorem fatal_gate_failing_input:
  "outcome (process_all one_module_tree (init_processor None None))
     = Raised (AttributeError ''ModuleInfo'' ''shared_state'')
   \<and> written (process_all one_module_tree (init_processor None None)) = []
   \<and> fst (validate_all init_validator
        (map module_to_dict (modules (parse_manifests one_module_tree (init_processor None None)))))
     = (True, [])"
  by (simp add: process_all_def Let_def validate_manifest_consistency_raises parse_one_module_tree
      module_to_dict_def validator_eval)

lemma all_states_empty: "all_states p = []"
proof -
  have "foldl (\<lambda>d module. case m_shared_state (module_to_dict module) of
                None \<Rightarrow> d
              | Some s \<Rightarrow> (case publishes s of None \<Rightarrow> d
                  | Some keys \<Rightarrow> foldl (\<lambda>d k. AList.update k () d) d keys)) d ms = d" for d ms
    by (induction ms arbitrary: d) (simp_all add: module_to_dict_def)
  then show ?thesis by (simp add: all_states_def)
qed

lemma sort_keys_eq:
  assumes "set xs = set ys" and "distinct xs" and "distinct ys"
  shows "sort xs = sort (ys :: string list)"
proof -
  from assms have "mset xs = mset ys" by (simp add: set_eq_iff_mset_eq_distinct)
  then show ?thesis by (metis mset_sort sorted_sort properties_for_sort)
qed

text \<open>
  For one clock text the system contract header depends on the set of published event
  names only, and both headers carry the clock text in their second line.
\<close>

lemma event_registry_key_set:
  assumes "set (map fst (all_events p)) = set (map fst (all_events p'))"
    and "distinct (map fst (all_events p))"
    and "distinct (map fst (all_events p'))"
  shows "generate_event_registry now p = generate_event_registry now p'
       \<and> event_registry_code now p ! 1 = ''// Generated by process_manifests.py on '' @ now
       \<and> api_registry_code now p ! 1 = ''// Generated by process_manifests.py on '' @ now"
proof -
  have "sort (map fst (all_events p)) = sort (map fst (all_events p'))"
    using assms by (rule sort_keys_eq)
  then show ?thesis
    by (simp add: generate_event_registry_def event_registry_code_def api_registry_code_def
        all_states_empty)
qed






lemmas extract_defs =
  extract_apis_def extract_ui_def extract_shared_state_def extract_events_def
  extract_configuration_def

lemma extract_keeps:
  "modules (snd (extract_apis mf mp)) = modules (snd mp)"
  "modules (snd (extract_ui mf mp)) = modules (snd mp)"
  "modules (snd (extract_shared_state mf mp)) = modules (snd mp)"
  "modules (snd (extract_events mf mp)) = modules (snd mp)"
  "modules (snd (extract_configuration mf mp)) = modules (snd mp)"
  "module_schema (snd (extract_apis mf mp)) = module_schema (snd mp)"
  "module_schema (snd (extract_ui mf mp)) = module_schema (snd mp)"
  "module_schema (snd (extract_shared_state mf mp)) = module_schema (snd mp)"
  "module_schema (snd (extract_events mf mp)) = module_schema (snd mp)"
  "module_schema (snd (extract_configuration mf mp)) = module_schema (snd mp)"
  by (simp_all add: extract_defs split_def Let_def split: option.splits)



lemma parse_module_step_schema:
  "module_schema (parse_module_step env p path) = module_schema p"
  by (simp add: parse_module_step_def parse_module_manifest_def split_def Let_def extract_keeps
      split: sum.splits option.splits error.splits)
















end
